theory Spec2Isabelle
  imports Main "HOL-Library.Word" "HOL-Library.Sublist" "HOL-Library.AList"
begin

section \<open>FlatGeoGraphBuf: the graph section codec (graph.ts, geojson/featurecollection.ts)\<close>

text \<open>
  A shallow embedding of the TypeScript sources \<^verbatim>\<open>graph.ts\<close>, \<^verbatim>\<open>constants.ts\<close> and
  \<^verbatim>\<open>geojson/featurecollection.ts\<close>. A thrown exception is a value \<open>Inl e\<close> of the sum
  type \<open>jserror + 'a\<close>; a normal return is \<open>Inr x\<close>. Everything the sources call but do
  not define (text codecs, JSON, the dynamic coercions of JavaScript, the FlatGeobuf
  feature codec) is a parameter: the record \<open>js_host\<close> and the record \<open>feature_codec\<close>.
\<close>

subsection \<open>Bytes, little-endian integers\<close>

type_synonym byte = "8 word"

text \<open>A JavaScript number is modelled by its IEEE-754 binary64 bit pattern.\<close>

type_synonym f64 = "64 word"

datatype jserror =
    Error string
  | RangeError
  | TypeError
  | SyntaxError

text \<open>\<open>le_bytes n v\<close>: the \<open>n\<close> low bytes of \<open>v\<close>, least significant first, which is what
  \<^verbatim>\<open>DataView.setUintN(.., v, true)\<close> stores (the value wraps modulo \<open>256 ^ n\<close>).\<close>

fun le_bytes :: "nat \<Rightarrow> nat \<Rightarrow> byte list" where
  "le_bytes 0 v = []"
| "le_bytes (Suc n) v = of_nat (v mod 256) # le_bytes n (v div 256)"

fun le_nat :: "byte list \<Rightarrow> nat" where
  "le_nat [] = 0"
| "le_nat (b # bs) = unat b + 256 * le_nat bs"

definition setUint16 :: "nat \<Rightarrow> byte list" where
  "setUint16 v = le_bytes 2 v"

definition setUint32 :: "nat \<Rightarrow> byte list" where
  "setUint32 v = le_bytes 4 v"

text \<open>Writing a (possibly negative) integer into \<open>n\<close> bytes keeps it modulo \<open>256 ^ n\<close>
  (two's complement).\<close>

definition setInt :: "nat \<Rightarrow> int \<Rightarrow> byte list" where
  "setInt n i = le_bytes n (nat (i mod 256 ^ n))"

subsection \<open>Typed arrays and data views\<close>

text \<open>
  A \<^verbatim>\<open>Uint8Array\<close> is a window \<open>[byteOffset, byteOffset + len)\<close> on a backing buffer;
  \<^verbatim>\<open>subarray\<close> shares the buffer, and a \<^verbatim>\<open>DataView\<close> created with
  \<^verbatim>\<open>new DataView(bytes.buffer, off)\<close> reaches from \<open>off\<close> to the end of the backing
  buffer, not to the end of the window.
\<close>

record Uint8Array =
  buffer :: "byte list"
  byteOffset :: nat
  len :: nat

definition wf_Uint8Array :: "Uint8Array \<Rightarrow> bool" where
  "wf_Uint8Array a = (byteOffset a + len a \<le> length (buffer a))"

definition new_Uint8Array :: "byte list \<Rightarrow> Uint8Array" where
  "new_Uint8Array bs = \<lparr>buffer = bs, byteOffset = 0, len = length bs\<rparr>"

definition elems :: "Uint8Array \<Rightarrow> byte list" where
  "elems a = take (len a) (drop (byteOffset a) (buffer a))"

text \<open>\<^verbatim>\<open>bytes[i]\<close>: \<open>None\<close> is \<^verbatim>\<open>undefined\<close>.\<close>

definition index :: "Uint8Array \<Rightarrow> nat \<Rightarrow> byte option" where
  "index a i = (if i < len a \<and> byteOffset a + i < length (buffer a)
                then Some (buffer a ! (byteOffset a + i)) else None)"

text \<open>\<^verbatim>\<open>bytes.subarray(b, e)\<close> for non-negative \<open>b\<close>, \<open>e\<close>: both ends are clamped to the
  window; an end before the begin gives the empty window.\<close>

definition subarray :: "Uint8Array \<Rightarrow> nat \<Rightarrow> nat \<Rightarrow> Uint8Array" where
  "subarray a b e =
     (let b' = min b (len a); e' = min e (len a)
      in \<lparr>buffer = buffer a, byteOffset = byteOffset a + b', len = e' - b'\<rparr>)"

record DataView =
  dv_buffer :: "byte list"
  dv_offset :: nat

definition new_DataView :: "byte list \<Rightarrow> nat \<Rightarrow> jserror + DataView" where
  "new_DataView buf off =
     (if off \<le> length buf then Inr \<lparr>dv_buffer = buf, dv_offset = off\<rparr> else Inl RangeError)"

text \<open>A read of \<open>n\<close> bytes at \<open>pos\<close> raises \<^verbatim>\<open>RangeError\<close> when it passes the end of the view.\<close>

definition getUint :: "nat \<Rightarrow> DataView \<Rightarrow> nat \<Rightarrow> jserror + nat" where
  "getUint n view pos =
     (if dv_offset view + pos + n \<le> length (dv_buffer view)
      then Inr (le_nat (take n (drop (dv_offset view + pos) (dv_buffer view))))
      else Inl RangeError)"

definition getUint8 :: "DataView \<Rightarrow> nat \<Rightarrow> jserror + nat" where
  "getUint8 = getUint 1"

definition getUint16 :: "DataView \<Rightarrow> nat \<Rightarrow> jserror + nat" where
  "getUint16 = getUint 2"

definition getUint32 :: "DataView \<Rightarrow> nat \<Rightarrow> jserror + nat" where
  "getUint32 = getUint 4"

definition to_signed :: "nat \<Rightarrow> nat \<Rightarrow> int" where
  "to_signed n v = (if v < 2 ^ (8 * n - 1) then int v else int v - 2 ^ (8 * n))"

definition getInt :: "nat \<Rightarrow> DataView \<Rightarrow> nat \<Rightarrow> jserror + int" where
  "getInt n view pos =
     (case getUint n view pos of Inl e \<Rightarrow> Inl e | Inr v \<Rightarrow> Inr (to_signed n v))"

subsection \<open>JavaScript values and the host\<close>

text \<open>
  The values an \<^verbatim>\<open>EdgeProperties\<close> object can hold
  (\<^verbatim>\<open>boolean | number | string | Uint8Array | object | null | undefined\<close>); an
  \<^verbatim>\<open>object\<close> is an array, a plain object (its own keys in \<^verbatim>\<open>Object.keys\<close> order) or
  a function. A property map is the list of its own entries in \<^verbatim>\<open>Object.keys\<close> order;
  inherited properties are not modelled.
\<close>

datatype jsvalue =
    VUndefined
  | VNull
  | VBool bool
  | VNumber f64
  | VString string
  | VBinary "byte list"
  | VArray "jsvalue list"
  | VObject "(string \<times> jsvalue) list"
  | VFunction

type_synonym EdgeProperties = "(string \<times> jsvalue) list"

text \<open>
  What the sources take from the JavaScript runtime. The coercion fields are consulted
  only where a value does not have the type the source casts it to
  (\<^verbatim>\<open>value as number\<close>, \<^verbatim>\<open>value as string\<close>, \<^verbatim>\<open>value as Uint8Array\<close>).
\<close>

record js_host =
  TextEncoder_encode :: "string \<Rightarrow> byte list"
  TextDecoder_decode :: "byte list \<Rightarrow> string"
  JSON_stringify :: "jsvalue \<Rightarrow> jserror + string"
  JSON_parse :: "string \<Rightarrow> jserror + jsvalue"
  ToNumber :: "jsvalue \<Rightarrow> jserror + f64"
  ToString :: "jsvalue \<Rightarrow> jserror + string"
  ToBigInt :: "jsvalue \<Rightarrow> jserror + int"
  ArrayLike :: "jsvalue \<Rightarrow> jserror + byte list"

subsubsection \<open>Numbers\<close>

function bitlen :: "nat \<Rightarrow> nat" where
  "bitlen n = (if n = 0 then 0 else Suc (bitlen (n div 2)))"
  by pat_completeness auto
termination
  by (relation "measure id") auto

declare bitlen.simps [simp del]

text \<open>\<open>a / 2 ^ sh\<close> rounded to the nearest integer, ties to even.\<close>

definition round_ties_even :: "nat \<Rightarrow> nat \<Rightarrow> nat" where
  "round_ties_even a sh =
     (if sh = 0 then a
      else let q = a div 2 ^ sh; r = a mod 2 ^ sh; half = 2 ^ (sh - 1)
           in if half < r \<or> (r = half \<and> odd q) then q + 1 else q)"

text \<open>The exponent and fraction fields of the binary64 nearest to a natural number
  below \<open>2 ^ 1024\<close> (a carry out of the rounded significand moves into the exponent).\<close>

definition magnitude_bits :: "nat \<Rightarrow> nat" where
  "magnitude_bits a =
     (if a = 0 then 0
      else let k = bitlen a - 1
           in if k \<le> 52 then (k + 1023) * 2 ^ 52 + (a * 2 ^ (52 - k) - 2 ^ 52)
              else (k + 1023) * 2 ^ 52 + (round_ties_even a (k - 52) - 2 ^ 52))"

text \<open>\<^verbatim>\<open>Number(i)\<close> for a BigInt \<open>i\<close>, and the conversion of every integer a
  \<^verbatim>\<open>DataView\<close> getter returns.\<close>

definition Number :: "int \<Rightarrow> f64" where
  "Number i = of_nat ((if i < 0 then 2 ^ 63 else 0) + magnitude_bits (nat \<bar>i\<bar>))"



text \<open>\<^verbatim>\<open>getFloat32\<close>: the binary64 with the value of a binary32 bit pattern (exact; a NaN
  keeps its payload).\<close>

definition number_of_Float32 :: "32 word \<Rightarrow> f64" where
  "number_of_Float32 w =
     (let n = unat w; s = n div 2 ^ 31; e = (n div 2 ^ 23) mod 2 ^ 8; m = n mod 2 ^ 23
      in of_nat (s * 2 ^ 63 +
           (if e = 255 then 2047 * 2 ^ 52 + m * 2 ^ 29
            else if e = 0 then
              (if m = 0 then 0
               else let k = bitlen m - 1 in (k + 874) * 2 ^ 52 + (m * 2 ^ (52 - k) - 2 ^ 52))
            else (e + 896) * 2 ^ 52 + m * 2 ^ 29)))"







subsubsection \<open>Decimal numerals in messages\<close>

definition digit :: "nat \<Rightarrow> char" where
  "digit d = char_of (d + 48)"

function decimal :: "nat \<Rightarrow> string" where
  "decimal n = (if 10 \<le> n then decimal (n div 10) @ [digit (n mod 10)] else [digit n])"
  by pat_completeness auto
termination
  by (relation "measure id") auto

declare decimal.simps [simp del]



subsection \<open>Column schema (column-meta.ts, flat-geobuf/column-type.ts)\<close>

text \<open>The \<^verbatim>\<open>ColumnType\<close> enumeration, values 0 to 14. A header read from a file may carry
  any byte as a type (\<open>TOther\<close>), or \<^verbatim>\<open>undefined\<close> when the type byte lies outside the
  array (\<open>TUndefined\<close>): \<^verbatim>\<open>parseGraphHeader\<close> stores what it reads.\<close>

datatype ColumnType =
    TByte | TUByte | TBool | TShort | TUShort | TInt | TUInt | TLong | TULong
  | TFloat | TDouble | TString | TJson | TDateTime | TBinary
  | TOther nat
  | TUndefined

definition ColumnType_values :: "ColumnType list" where
  "ColumnType_values =
     [TByte, TUByte, TBool, TShort, TUShort, TInt, TUInt, TLong, TULong,
      TFloat, TDouble, TString, TJson, TDateTime, TBinary]"

definition ColumnType_of_nat :: "nat \<Rightarrow> ColumnType" where
  "ColumnType_of_nat n = (if n < 15 then ColumnType_values ! n else TOther n)"

fun nat_of_ColumnType :: "ColumnType \<Rightarrow> nat" where
  "nat_of_ColumnType TByte = 0"
| "nat_of_ColumnType TUByte = 1"
| "nat_of_ColumnType TBool = 2"
| "nat_of_ColumnType TShort = 3"
| "nat_of_ColumnType TUShort = 4"
| "nat_of_ColumnType TInt = 5"
| "nat_of_ColumnType TUInt = 6"
| "nat_of_ColumnType TLong = 7"
| "nat_of_ColumnType TULong = 8"
| "nat_of_ColumnType TFloat = 9"
| "nat_of_ColumnType TDouble = 10"
| "nat_of_ColumnType TString = 11"
| "nat_of_ColumnType TJson = 12"
| "nat_of_ColumnType TDateTime = 13"
| "nat_of_ColumnType TBinary = 14"
| "nat_of_ColumnType (TOther n) = n"
| "nat_of_ColumnType TUndefined = 0"

text \<open>\<^verbatim>\<open>`${column.type}`\<close> in a message.\<close>

definition show_ColumnType :: "ColumnType \<Rightarrow> string" where
  "show_ColumnType t = (if t = TUndefined then ''undefined'' else decimal (nat_of_ColumnType t))"

text \<open>A \<^verbatim>\<open>ColumnMeta\<close>; its other fields are the same constants in every column the graph
  code creates (\<^verbatim>\<open>title: null, width: -1, ...\<close>) and are left out.\<close>

record ColumnMeta =
  name :: string
  type :: ColumnType

record Edge =
  from_index :: nat
  to_index :: nat
  properties :: EdgeProperties

record GraphHeaderMeta =
  edgeCount :: nat
  edgeColumns :: "ColumnMeta list option"

subsection \<open>Reading the graph section (graph.ts)\<close>

definition SIZE_PREFIX_LEN :: nat where
  "SIZE_PREFIX_LEN = 4"

text \<open>The loop of \<^verbatim>\<open>parseGraphHeader\<close> over the declared columns; \<open>n\<close> columns are left to
  read and \<open>pos\<close> is the position in the view.\<close>

fun parse_columns ::
  "js_host \<Rightarrow> Uint8Array \<Rightarrow> nat \<Rightarrow> DataView \<Rightarrow> nat \<Rightarrow> nat \<Rightarrow> jserror + ColumnMeta list" where
  "parse_columns h bytes offset view 0 pos = Inr []"
| "parse_columns h bytes offset view (Suc n) pos =
     (case getUint16 view pos of
        Inl e \<Rightarrow> Inl e
      | Inr nameLen \<Rightarrow>
          (let pos1 = pos + 2;
               nameBytes = subarray bytes (offset + pos1) (offset + pos1 + nameLen);
               name' = TextDecoder_decode h (elems nameBytes);
               pos2 = pos1 + nameLen;
               type' = (case index bytes (offset + pos2) of
                          None \<Rightarrow> TUndefined
                        | Some b \<Rightarrow> ColumnType_of_nat (unat b));
               pos3 = pos2 + 1
           in case parse_columns h bytes offset view n pos3 of
                Inl e \<Rightarrow> Inl e
              | Inr cs \<Rightarrow> Inr (\<lparr>name = name', type = type'\<rparr> # cs)))"

definition parseGraphHeader ::
  "js_host \<Rightarrow> Uint8Array \<Rightarrow> nat \<Rightarrow> nat \<Rightarrow> jserror + GraphHeaderMeta" where
  "parseGraphHeader h bytes offset headerSize =
     (case new_DataView (buffer bytes) (byteOffset bytes + offset) of
        Inl e \<Rightarrow> Inl e
      | Inr view \<Rightarrow>
     (case getUint32 view 0 of
        Inl e \<Rightarrow> Inl e
      | Inr edgeCount' \<Rightarrow>
     (case getUint16 view 4 of
        Inl e \<Rightarrow> Inl e
      | Inr columnCount \<Rightarrow>
     (case parse_columns h bytes offset view columnCount 6 of
        Inl e \<Rightarrow> Inl e
      | Inr cols \<Rightarrow>
          Inr \<lparr>edgeCount = edgeCount',
               edgeColumns = (if 0 < length cols then Some cols else None)\<rparr>))))"

text \<open>The \<^verbatim>\<open>switch (column.type)\<close> of \<^verbatim>\<open>parseEdgeProperties\<close>: the value read for a
  column at \<open>offset\<close>, and the offset after it.\<close>

definition parse_value ::
  "js_host \<Rightarrow> Uint8Array \<Rightarrow> DataView \<Rightarrow> ColumnMeta \<Rightarrow> nat \<Rightarrow> jserror + (jsvalue \<times> nat)" where
  "parse_value h bytes view column offset =
     (case type column of
        TBool \<Rightarrow>
          (case getUint8 view offset of Inl e \<Rightarrow> Inl e
           | Inr v \<Rightarrow> Inr (VBool (v \<noteq> 0), offset + 1))
      | TByte \<Rightarrow>
          (case getInt 1 view offset of Inl e \<Rightarrow> Inl e
           | Inr v \<Rightarrow> Inr (VNumber (Number v), offset + 1))
      | TUByte \<Rightarrow>
          (case getUint8 view offset of Inl e \<Rightarrow> Inl e
           | Inr v \<Rightarrow> Inr (VNumber (Number (int v)), offset + 1))
      | TShort \<Rightarrow>
          (case getInt 2 view offset of Inl e \<Rightarrow> Inl e
           | Inr v \<Rightarrow> Inr (VNumber (Number v), offset + 2))
      | TUShort \<Rightarrow>
          (case getUint16 view offset of Inl e \<Rightarrow> Inl e
           | Inr v \<Rightarrow> Inr (VNumber (Number (int v)), offset + 2))
      | TInt \<Rightarrow>
          (case getInt 4 view offset of Inl e \<Rightarrow> Inl e
           | Inr v \<Rightarrow> Inr (VNumber (Number v), offset + 4))
      | TUInt \<Rightarrow>
          (case getUint32 view offset of Inl e \<Rightarrow> Inl e
           | Inr v \<Rightarrow> Inr (VNumber (Number (int v)), offset + 4))
      | TLong \<Rightarrow>
          (case getInt 8 view offset of Inl e \<Rightarrow> Inl e
           | Inr v \<Rightarrow> Inr (VNumber (Number v), offset + 8))
      | TULong \<Rightarrow>
          (case getUint 8 view offset of Inl e \<Rightarrow> Inl e
           | Inr v \<Rightarrow> Inr (VNumber (Number (int v)), offset + 8))
      | TFloat \<Rightarrow>
          (case getUint 4 view offset of Inl e \<Rightarrow> Inl e
           | Inr v \<Rightarrow> Inr (VNumber (number_of_Float32 (of_nat v)), offset + 4))
      | TDouble \<Rightarrow>
          (case getUint 8 view offset of Inl e \<Rightarrow> Inl e
           | Inr v \<Rightarrow> Inr (VNumber (of_nat v), offset + 8))
      | TDateTime \<Rightarrow>
          (case getUint32 view offset of Inl e \<Rightarrow> Inl e
           | Inr n \<Rightarrow>
               Inr (VString (TextDecoder_decode h
                      (elems (subarray bytes (offset + 4) (offset + 4 + n)))),
                    offset + 4 + n))
      | TString \<Rightarrow>
          (case getUint32 view offset of Inl e \<Rightarrow> Inl e
           | Inr n \<Rightarrow>
               Inr (VString (TextDecoder_decode h
                      (elems (subarray bytes (offset + 4) (offset + 4 + n)))),
                    offset + 4 + n))
      | TJson \<Rightarrow>
          (case getUint32 view offset of Inl e \<Rightarrow> Inl e
           | Inr n \<Rightarrow>
               (case JSON_parse h (TextDecoder_decode h
                       (elems (subarray bytes (offset + 4) (offset + 4 + n)))) of
                  Inl e \<Rightarrow> Inl e
                | Inr v \<Rightarrow> Inr (v, offset + 4 + n)))
      | TBinary \<Rightarrow>
          (case getUint32 view offset of Inl e \<Rightarrow> Inl e
           | Inr n \<Rightarrow>
               Inr (VBinary (elems (subarray bytes (offset + 4) (offset + 4 + n))),
                    offset + 4 + n))
      | _ \<Rightarrow> Inl (Error (''Unknown column type: '' @ show_ColumnType (type column))))"

text \<open>The \<^verbatim>\<open>while (offset < bytes.length)\<close> loop of \<^verbatim>\<open>parseEdgeProperties\<close>;
  \<^verbatim>\<open>properties[column.name] = v\<close> replaces the value of a key already present and
  appends a new key.\<close>

function parse_properties_loop ::
  "js_host \<Rightarrow> Uint8Array \<Rightarrow> DataView \<Rightarrow> ColumnMeta list \<Rightarrow> nat \<Rightarrow> EdgeProperties
     \<Rightarrow> jserror + EdgeProperties" where
  "parse_properties_loop h bytes view columns offset props =
     (if offset < len bytes then
        (case getUint16 view offset of
           Inl e \<Rightarrow> Inl e
         | Inr colIndex \<Rightarrow>
             if length columns \<le> colIndex then Inr props
             else
               (case parse_value h bytes view (columns ! colIndex) (offset + 2) of
                  Inl e \<Rightarrow> Inl e
                | Inr (v, offset') \<Rightarrow>
                    parse_properties_loop h bytes view columns offset'
                      (AList.update (name (columns ! colIndex)) v props)))
      else Inr props)"
  by pat_completeness auto
termination
proof (relation "measure (\<lambda>(h, bytes, view, columns, offset, props). len bytes - offset)")
  show "wf (measure (\<lambda>(h, bytes, view, columns, offset, props). len bytes - offset))"
    by simp
next
  fix h bytes view columns offset props colIndex x v offset'
  assume "offset < len bytes"
    and "parse_value h bytes view (columns ! colIndex) (offset + 2) = Inr x"
    and "(v, offset') = x"
  then have "offset + 2 < offset'"
    by (auto simp: parse_value_def split: ColumnType.splits sum.splits)
  with \<open>offset < len bytes\<close>
  show "((h, bytes, view, columns, offset', AList.update (name (columns ! colIndex)) v props),
         (h, bytes, view, columns, offset, props))
        \<in> measure (\<lambda>(h, bytes, view, columns, offset, props). len bytes - offset)"
    by simp
qed

declare parse_properties_loop.simps [simp del]

definition parseEdgeProperties ::
  "js_host \<Rightarrow> Uint8Array \<Rightarrow> ColumnMeta list option \<Rightarrow> jserror + EdgeProperties" where
  "parseEdgeProperties h bytes columns =
     (case columns of
        None \<Rightarrow> Inr []
      | Some cols \<Rightarrow>
          if length cols = 0 \<or> len bytes = 0 then Inr []
          else
            (case new_DataView (buffer bytes) (byteOffset bytes) of
               Inl e \<Rightarrow> Inl e
             | Inr view \<Rightarrow> parse_properties_loop h bytes view cols 0 []))"

definition parseEdge ::
  "js_host \<Rightarrow> Uint8Array \<Rightarrow> nat \<Rightarrow> nat \<Rightarrow> ColumnMeta list option \<Rightarrow> jserror + Edge" where
  "parseEdge h bytes offset size' columns =
     (case new_DataView (buffer bytes) (byteOffset bytes + offset) of
        Inl e \<Rightarrow> Inl e
      | Inr view \<Rightarrow>
     (case getUint32 view 0 of
        Inl e \<Rightarrow> Inl e
      | Inr from' \<Rightarrow>
     (case getUint32 view 4 of
        Inl e \<Rightarrow> Inl e
      | Inr to' \<Rightarrow>
          (case columns of
             None \<Rightarrow> Inr \<lparr>from_index = from', to_index = to', properties = []\<rparr>
           | Some cols \<Rightarrow>
               if 0 < length cols \<and> 8 < size' then
                 (case parseEdgeProperties h
                         (subarray bytes (offset + 8) (offset + size')) columns of
                    Inl e \<Rightarrow> Inl e
                  | Inr props \<Rightarrow>
                      Inr \<lparr>from_index = from', to_index = to', properties = props\<rparr>)
               else Inr \<lparr>from_index = from', to_index = to', properties = []\<rparr>))))"

definition parseGraphSectionHeader ::
  "js_host \<Rightarrow> Uint8Array \<Rightarrow> nat \<Rightarrow> jserror + GraphHeaderMeta" where
  "parseGraphSectionHeader h bytes offset =
     (case new_DataView (buffer bytes) (byteOffset bytes + offset) of
        Inl e \<Rightarrow> Inl e
      | Inr view \<Rightarrow>
     (case getUint32 view 0 of
        Inl e \<Rightarrow> Inl e
      | Inr headerSize \<Rightarrow> parseGraphHeader h bytes (offset + SIZE_PREFIX_LEN) headerSize))"

text \<open>The size prefix of the edge record at \<open>offset\<close>:
  \<^verbatim>\<open>new DataView(bytes.buffer, bytes.byteOffset + offset).getUint32(0, true)\<close>.\<close>

definition read_edgeSize :: "Uint8Array \<Rightarrow> nat \<Rightarrow> jserror + nat" where
  "read_edgeSize bytes offset =
     (case new_DataView (buffer bytes) (byteOffset bytes + offset) of
        Inl e \<Rightarrow> Inl e
      | Inr view \<Rightarrow> getUint32 view 0)"

text \<open>The edge loop of \<^verbatim>\<open>parseGraphSection\<close>, \<open>n\<close> edges left to read.\<close>

fun parse_edges ::
  "js_host \<Rightarrow> Uint8Array \<Rightarrow> ColumnMeta list option \<Rightarrow> nat \<Rightarrow> nat \<Rightarrow> jserror + Edge list" where
  "parse_edges h bytes columns 0 offset = Inr []"
| "parse_edges h bytes columns (Suc n) offset =
     (case read_edgeSize bytes offset of
        Inl e \<Rightarrow> Inl e
      | Inr edgeSize \<Rightarrow>
     (case parseEdge h bytes (offset + SIZE_PREFIX_LEN) edgeSize columns of
        Inl e \<Rightarrow> Inl e
      | Inr edge \<Rightarrow>
     (case parse_edges h bytes columns n (offset + SIZE_PREFIX_LEN + edgeSize) of
        Inl e \<Rightarrow> Inl e
      | Inr edges \<Rightarrow> Inr (edge # edges))))"

definition parseGraphSection :: "js_host \<Rightarrow> Uint8Array \<Rightarrow> nat \<Rightarrow> jserror + Edge list" where
  "parseGraphSection h bytes offset =
     (case new_DataView (buffer bytes) (byteOffset bytes + offset) of
        Inl e \<Rightarrow> Inl e
      | Inr view \<Rightarrow>
     (case getUint32 view 0 of
        Inl e \<Rightarrow> Inl e
      | Inr headerSize \<Rightarrow>
     (case parseGraphHeader h bytes (offset + SIZE_PREFIX_LEN) headerSize of
        Inl e \<Rightarrow> Inl e
      | Inr header \<Rightarrow>
          parse_edges h bytes (edgeColumns header) (edgeCount header)
            (offset + SIZE_PREFIX_LEN + headerSize))))"

text \<open>
  \<^verbatim>\<open>deserializeGraphStream\<close> is a generator. Its run is the list of the edges it
  yields, in order, and how it ends: \<open>None\<close> when it returns, \<open>Some e\<close> when it throws.
\<close>

type_synonym 'a generated = "'a list \<times> jserror option"

fun stream_edges ::
  "js_host \<Rightarrow> Uint8Array \<Rightarrow> ColumnMeta list option \<Rightarrow> nat \<Rightarrow> nat \<Rightarrow> Edge generated" where
  "stream_edges h bytes columns 0 offset = ([], None)"
| "stream_edges h bytes columns (Suc n) offset =
     (case read_edgeSize bytes offset of
        Inl e \<Rightarrow> ([], Some e)
      | Inr edgeSize \<Rightarrow>
     (case parseEdge h bytes (offset + SIZE_PREFIX_LEN) edgeSize columns of
        Inl e \<Rightarrow> ([], Some e)
      | Inr edge \<Rightarrow>
          (case stream_edges h bytes columns n (offset + SIZE_PREFIX_LEN + edgeSize) of
             (edges, r) \<Rightarrow> (edge # edges, r))))"

definition deserializeGraphStream :: "js_host \<Rightarrow> Uint8Array \<Rightarrow> nat \<Rightarrow> Edge generated" where
  "deserializeGraphStream h bytes graphOffset =
     (case new_DataView (buffer bytes) (byteOffset bytes + graphOffset) of
        Inl e \<Rightarrow> ([], Some e)
      | Inr view \<Rightarrow>
     (case getUint32 view 0 of
        Inl e \<Rightarrow> ([], Some e)
      | Inr headerSize \<Rightarrow>
     (case parseGraphHeader h bytes (graphOffset + SIZE_PREFIX_LEN) headerSize of
        Inl e \<Rightarrow> ([], Some e)
      | Inr header \<Rightarrow>
          stream_edges h bytes (edgeColumns header) (edgeCount header)
            (graphOffset + SIZE_PREFIX_LEN + headerSize))))"

subsection \<open>Magic bytes (constants.ts)\<close>

definition magicbytes :: "byte list" where
  "magicbytes = [0x66, 0x67, 0x67, 0x01, 0x66, 0x67, 0x67, 0x00]"

definition fgbMagicBytes :: "byte list" where
  "fgbMagicBytes = [0x66, 0x67, 0x62, 0x03, 0x66, 0x67, 0x62, 0x00]"

definition isValidMagicBytes :: "Uint8Array \<Rightarrow> bool" where
  "isValidMagicBytes bytes =
     (let fgg = (index bytes 0 = Some 0x66 \<and> index bytes 1 = Some 0x67 \<and> index bytes 2 = Some 0x67);
          fgb = (index bytes 0 = Some 0x66 \<and> index bytes 1 = Some 0x67 \<and> index bytes 2 = Some 0x62)
      in fgg \<or> fgb)"

subsection \<open>Writing the graph section (graph.ts)\<close>




text \<open>\<^verbatim>\<open>properties[name]\<close>: \<^verbatim>\<open>undefined\<close> for a key the object does not have.\<close>

definition get_property :: "EdgeProperties \<Rightarrow> string \<Rightarrow> jsvalue" where
  "get_property props k = (case map_of props k of None \<Rightarrow> VUndefined | Some v \<Rightarrow> v)"










subsection \<open>The feature section and the top level (geojson/featurecollection.ts)\<close>

text \<open>The two fields of \<^verbatim>\<open>HeaderMeta\<close> that the graph code reads.\<close>

record HeaderMeta =
  featuresCount :: nat
  indexNodeSize :: nat

text \<open>
  The FlatGeobuf feature codec, which the graph code calls and does not define:
  \<^verbatim>\<open>fromByteBuffer\<close> (header-meta.ts) on a buffer positioned at an offset,
  \<^verbatim>\<open>calcTreeSize\<close> (packedrtree.ts), the feature reader \<^verbatim>\<open>deserialize\<close> of
  generic/featurecollection.ts with \<^verbatim>\<open>fromFeature\<close>, and the encoders \<^verbatim>\<open>buildHeader\<close>
  and \<^verbatim>\<open>buildFeature\<close> (with the geometry parsers), which see the feature collection for
  the header fields not modelled here. \<open>'g\<close> is a GeoJSON feature given to \<^verbatim>\<open>serialize\<close>,
  \<open>'f\<close> a feature returned by \<^verbatim>\<open>deserialize\<close>.
\<close>

record ('g, 'f) feature_codec =
  fromByteBuffer :: "Uint8Array \<Rightarrow> nat \<Rightarrow> jserror + HeaderMeta"
  calcTreeSize :: "nat \<Rightarrow> nat \<Rightarrow> jserror + nat"
  genericDeserialize :: "Uint8Array \<Rightarrow> jserror + 'f list"
  buildHeader :: "'g list \<Rightarrow> HeaderMeta \<Rightarrow> nat \<Rightarrow> jserror + byte list"
  buildFeature :: "'g list \<Rightarrow> HeaderMeta \<Rightarrow> 'g \<Rightarrow> jserror + byte list"

text \<open>\<^verbatim>\<open>ByteBuffer.readUint32\<close> of the flatbuffers library: four bytes, least significant
  first, read by indexing; a byte outside the array reads as \<open>0\<close>.\<close>

definition byte_or_zero :: "Uint8Array \<Rightarrow> nat \<Rightarrow> nat" where
  "byte_or_zero bytes i = (case index bytes i of None \<Rightarrow> 0 | Some b \<Rightarrow> unat b)"

definition readUint32 :: "Uint8Array \<Rightarrow> nat \<Rightarrow> nat" where
  "readUint32 bytes offset =
     byte_or_zero bytes offset + 256 * byte_or_zero bytes (offset + 1)
     + 65536 * byte_or_zero bytes (offset + 2) + 16777216 * byte_or_zero bytes (offset + 3)"

text \<open>The \<^verbatim>\<open>while\<close> loop of \<^verbatim>\<open>calculateFeaturesEndOffset\<close>, \<open>n\<close> features left to skip.\<close>

fun skip_features :: "Uint8Array \<Rightarrow> nat \<Rightarrow> nat \<Rightarrow> nat" where
  "skip_features bytes 0 offset = offset"
| "skip_features bytes (Suc n) offset =
     (if offset < len bytes
      then skip_features bytes n (offset + (SIZE_PREFIX_LEN + readUint32 bytes offset))
      else offset)"

definition calculateFeaturesEndOffset ::
  "('g, 'f) feature_codec \<Rightarrow> Uint8Array \<Rightarrow> HeaderMeta \<Rightarrow> jserror + nat" where
  "calculateFeaturesEndOffset codec bytes headerMeta =
     (let headerLength = readUint32 bytes (length magicbytes);
          offset = length magicbytes + SIZE_PREFIX_LEN + headerLength
      in case (if 0 < indexNodeSize headerMeta
               then (case calcTreeSize codec (featuresCount headerMeta) (indexNodeSize headerMeta) of
                       Inl e \<Rightarrow> Inl e
                     | Inr treeSize \<Rightarrow> Inr (offset + treeSize))
               else Inr offset) of
           Inl e \<Rightarrow> Inl e
         | Inr offset' \<Rightarrow> Inr (skip_features bytes (featuresCount headerMeta) offset'))"



record FlatGeoGraphBufMeta =
  meta_features :: HeaderMeta
  meta_graph :: "GraphHeaderMeta option"

record 'f DeserializeGraphResult =
  features :: "'f list"
  adjacencyList :: "Edge list"

text \<open>
  The steps of \<^verbatim>\<open>deserialize\<close> that a caller can tell apart, in the order they happen:
  the feature header is parsed, the graph header is parsed, the observer \<^verbatim>\<open>metaFn\<close> is
  called with a meta, the loop that materializes the features starts, and
  \<^verbatim>\<open>parseGraphSection\<close>, which materializes the edges, starts. \<^verbatim>\<open>deserialize\<close> returns
  the steps taken and its outcome. An observer is a function that returns \<open>None\<close>, or
  \<open>Some e\<close> when it throws \<open>e\<close>.
\<close>

datatype event =
    FeatureHeaderParsed
  | GraphHeaderParsed
  | ObserverCalled FlatGeoGraphBufMeta
  | FeaturesStarted
  | EdgesStarted

definition deserialize ::
  "js_host \<Rightarrow> ('g, 'f) feature_codec \<Rightarrow> Uint8Array
     \<Rightarrow> (FlatGeoGraphBufMeta \<Rightarrow> jserror option) option
     \<Rightarrow> event list \<times> (jserror + 'f DeserializeGraphResult)" where
  "deserialize h codec bytes metaFn =
     (case fromByteBuffer codec bytes (length magicbytes) of
        Inl e \<Rightarrow> ([], Inl e)
      | Inr headerMeta \<Rightarrow>
     (case calculateFeaturesEndOffset codec bytes headerMeta of
        Inl e \<Rightarrow> ([FeatureHeaderParsed], Inl e)
      | Inr featuresEndOffset \<Rightarrow>
     (let hasGraphSection = (featuresEndOffset < len bytes)
      in case (if hasGraphSection
               then (case parseGraphSectionHeader h bytes featuresEndOffset of
                       Inl e \<Rightarrow> Inl e
                     | Inr g \<Rightarrow> Inr (Some g))
               else Inr None) of
           Inl e \<Rightarrow> ([FeatureHeaderParsed], Inl e)
         | Inr graphMeta \<Rightarrow>
     (let parsed = FeatureHeaderParsed # (if hasGraphSection then [GraphHeaderParsed] else []);
          combinedMeta = \<lparr>meta_features = headerMeta, meta_graph = graphMeta\<rparr>;
          observed = (case metaFn of
                        None \<Rightarrow> (parsed, None)
                      | Some f \<Rightarrow> (parsed @ [ObserverCalled combinedMeta], f combinedMeta))
      in case snd observed of
           Some e \<Rightarrow> (fst observed, Inl e)
         | None \<Rightarrow>
     (case genericDeserialize codec bytes of
        Inl e \<Rightarrow> (fst observed @ [FeaturesStarted], Inl e)
      | Inr fs \<Rightarrow>
          if hasGraphSection then
            (case parseGraphSection h bytes featuresEndOffset of
               Inl e \<Rightarrow> (fst observed @ [FeaturesStarted, EdgesStarted], Inl e)
             | Inr edges \<Rightarrow>
                 (fst observed @ [FeaturesStarted, EdgesStarted],
                  Inr \<lparr>features = fs, adjacencyList = edges\<rparr>))
          else (fst observed @ [FeaturesStarted],
                Inr \<lparr>features = fs, adjacencyList = []\<rparr>))))))"

definition deserializeGraphEdges ::
  "js_host \<Rightarrow> ('g, 'f) feature_codec \<Rightarrow> Uint8Array \<Rightarrow> Edge generated" where
  "deserializeGraphEdges h codec bytes =
     (case fromByteBuffer codec bytes (length magicbytes) of
        Inl e \<Rightarrow> ([], Some e)
      | Inr headerMeta \<Rightarrow>
     (case calculateFeaturesEndOffset codec bytes headerMeta of
        Inl e \<Rightarrow> ([], Some e)
      | Inr featuresEndOffset \<Rightarrow>
          if len bytes \<le> featuresEndOffset then ([], None)
          else deserializeGraphStream h bytes featuresEndOffset))"

subsection \<open>A host and a feature codec for closed instances\<close>

text \<open>
  \<open>ascii_host\<close> runs the codec on concrete inputs whose strings are ASCII: a string is
  its own UTF-8 bytes. Its JSON covers the five texts \<^verbatim>\<open>null\<close>, \<^verbatim>\<open>true\<close>, \<^verbatim>\<open>false\<close>,
  \<^verbatim>\<open>[]\<close> and \<^verbatim>\<open>{}\<close>; of the coercions it has the conversion of a boolean to a string
  and to a number, and raises \<^verbatim>\<open>TypeError\<close> elsewhere.
\<close>

definition ascii_stringify :: "jsvalue \<Rightarrow> jserror + string" where
  "ascii_stringify v =
     (if v = VNull then Inr ''null''
      else if v = VBool True then Inr ''true''
      else if v = VBool False then Inr ''false''
      else if v = VArray [] then Inr ''[]''
      else if v = VObject [] then Inr ''{}''
      else Inl TypeError)"

definition ascii_parse :: "string \<Rightarrow> jserror + jsvalue" where
  "ascii_parse s =
     (if s = ''null'' then Inr VNull
      else if s = ''true'' then Inr (VBool True)
      else if s = ''false'' then Inr (VBool False)
      else if s = ''[]'' then Inr (VArray [])
      else if s = ''{}'' then Inr (VObject [])
      else Inl SyntaxError)"

definition ascii_host :: js_host where
  "ascii_host =
     \<lparr>TextEncoder_encode = map (\<lambda>c. of_nat (of_char c)),
      TextDecoder_decode = map (\<lambda>b. char_of (unat b)),
      JSON_stringify = ascii_stringify,
      JSON_parse = ascii_parse,
      ToNumber = (\<lambda>v. case v of VBool b \<Rightarrow> Inr (Number (if b then 1 else 0)) | _ \<Rightarrow> Inl TypeError),
      ToString = (\<lambda>v. case v of VBool b \<Rightarrow> Inr (if b then ''true'' else ''false'')
                       | _ \<Rightarrow> Inl TypeError),
      ToBigInt = (\<lambda>v. case v of VBool b \<Rightarrow> Inr (if b then 1 else 0) | _ \<Rightarrow> Inl TypeError),
      ArrayLike = (\<lambda>v. Inl TypeError)\<rparr>"

text \<open>
  \<open>plain_codec\<close> stands in for the FlatGeobuf feature codec on concrete inputs: a
  feature is its body bytes, written with a size prefix; the header is a size prefix and
  the feature count; there is no index.
\<close>

fun plain_features :: "Uint8Array \<Rightarrow> nat \<Rightarrow> nat \<Rightarrow> byte list list" where
  "plain_features bytes 0 offset = []"
| "plain_features bytes (Suc n) offset =
     elems (subarray bytes (offset + 4) (offset + 4 + readUint32 bytes offset))
       # plain_features bytes n (offset + 4 + readUint32 bytes offset)"

definition plain_codec :: "(byte list, byte list) feature_codec" where
  "plain_codec =
     \<lparr>fromByteBuffer = (\<lambda>bytes pos.
         if pos + 8 \<le> len bytes
         then Inr \<lparr>featuresCount = readUint32 bytes (pos + 4), indexNodeSize = 0\<rparr>
         else Inl RangeError),
      calcTreeSize = (\<lambda>n s. Inl (Error ''no index'')),
      genericDeserialize = (\<lambda>bytes. Inr (plain_features bytes (readUint32 bytes 12) 16)),
      buildHeader = (\<lambda>fc headerMeta crsCode. Inr (setUint32 4 @ setUint32 (featuresCount headerMeta))),
      buildFeature = (\<lambda>fc headerMeta g. Inr (setUint32 (length g) @ g))\<rparr>"

subsection \<open>Concrete inputs\<close>

text \<open>A graph section with one edge and no column: header size 6, edge count 1, column
  count 0, then an edge record of declared size 11 from vertex 2 to vertex 7 followed
  by three property bytes.\<close>

definition zero_column_section :: "byte list" where
  "zero_column_section =
     [0x06, 0, 0, 0,   0x01, 0, 0, 0,   0, 0,
      0x0B, 0, 0, 0,   0x02, 0, 0, 0,   0x07, 0, 0, 0,   0xAA, 0xBB, 0xCC]"



text \<open>A graph section with the column \<open>a: Bool\<close> whose only edge record declares the size
  100, while 11 bytes are left in the buffer: \<open>from\<close>, \<open>to\<close> and the property
  \<open>a = true\<close>.\<close>

definition overrun_section :: "byte list" where
  "overrun_section =
     [0x0A, 0, 0, 0,   0x01, 0, 0, 0,   0x01, 0,   0x01, 0, 0x61, 0x02,
      0x64, 0, 0, 0,   0x02, 0, 0, 0,   0x07, 0, 0, 0,   0, 0, 0x01]"

subsection \<open>The specification's words\<close>





text \<open>A size-prefixed block: the length as a little-endian \<open>u32\<close>, then the bytes.\<close>

definition frame :: "byte list \<Rightarrow> byte list" where
  "frame body = setUint32 (length body) @ body"

text \<open>Two files for \<open>plain_codec\<close> with one feature of two bytes: the first has the
  FlatGeobuf magic and ten more bytes after its feature (a graph section with no edge
  and no column); the second starts with eight bytes \<open>x\<close> and ends with its feature.\<close>

definition fgb_file_with_trailer :: "byte list" where
  "fgb_file_with_trailer =
     fgbMagicBytes @ [4, 0, 0, 0,   1, 0, 0, 0] @ [2, 0, 0, 0,   0xAA, 0xBB]
       @ [6, 0, 0, 0,   0, 0, 0, 0,   0, 0]"

definition bad_magic_file :: "byte list" where
  "bad_magic_file =
     [0x78, 0x78, 0x78, 0x78, 0x78, 0x78, 0x78, 0x78] @ [4, 0, 0, 0,   1, 0, 0, 0]
       @ [2, 0, 0, 0,   0xAA, 0xBB]"

text \<open>A file for \<open>plain_codec\<close>: the magic, the header of one feature, a feature of two
  bytes and the graph section \<open>zero_column_section\<close>.\<close>

definition small_graph_file :: "byte list" where
  "small_graph_file =
     magicbytes @ frame [1, 0, 0, 0] @ frame [0xAA, 0xBB] @ zero_column_section"

text \<open>The same file without its graph section.\<close>

definition small_plain_file :: "byte list" where
  "small_plain_file = magicbytes @ frame [1, 0, 0, 0] @ frame [0xAA, 0xBB]"

subsection \<open>Bytes at an offset\<close>

text \<open>\<open>holds_at B off X\<close>: the buffer \<open>B\<close> holds the bytes \<open>X\<close> at the offset \<open>off\<close>.\<close>

definition holds_at :: "byte list \<Rightarrow> nat \<Rightarrow> byte list \<Rightarrow> bool" where
  "holds_at B off X = (off + length X \<le> length B \<and> take (length X) (drop off B) = X)"

text \<open>
  What a round trip keeps of an edge, in the specification's words: \<open>from\<close>, \<open>to\<close>, and
  of the properties those whose key is in the schema and whose value is neither missing
  nor null. (A key that the map does not have reads as \<^verbatim>\<open>undefined\<close>.) The kept
  properties are listed in the order of the schema.
\<close>

definition present_properties :: "EdgeProperties \<Rightarrow> ColumnMeta list \<Rightarrow> EdgeProperties" where
  "present_properties props cols =
     concat (map (\<lambda>c. let v = get_property props (name c)
                         in if v = VNull \<or> v = VUndefined then [] else [(name c, v)]) cols)"

definition stored_properties ::
  "ColumnMeta list option \<Rightarrow> EdgeProperties option \<Rightarrow> EdgeProperties" where
  "stored_properties columns props =
     (case columns of
        None \<Rightarrow> []
      | Some cols \<Rightarrow> (case props of None \<Rightarrow> [] | Some ps \<Rightarrow> present_properties ps cols))"






section \<open>Verified properties\<close>

subsection \<open>Little-endian integers\<close>

lemma length_le_bytes [simp]: "length (le_bytes n v) = n"
  by (induction n arbitrary: v) auto

lemma le_nat_le_bytes: "le_nat (le_bytes n v) = v mod 256 ^ n"
proof (induction n arbitrary: v)
  case 0
  then show ?case by simp
next
  case (Suc n)
  have "unat (of_nat (v mod 256) :: byte) = v mod 256"
    by (simp add: unat_of_nat)
  then show ?case
    using Suc [of "v div 256"] by (simp add: mod_mult2_eq)
qed

subsection \<open>The graph header\<close>

lemma parse_columns_length:
  "parse_columns h bytes offset view n pos = Inr cs \<Longrightarrow> length cs = n"
  by (induction n arbitrary: pos cs) (auto simp: Let_def split: sum.splits)

text \<open>A header that parses has read a column count \<open>n\<close>; its \<open>edgeColumns\<close> is
  \<^verbatim>\<open>null\<close> exactly when \<open>n = 0\<close>, and holds \<open>n\<close> columns otherwise.\<close>

lemma parseGraphHeader_columns:
  assumes "parseGraphHeader h bytes offset headerSize = Inr header"
  shows "\<exists>view n. new_DataView (buffer bytes) (byteOffset bytes + offset) = Inr view
           \<and> getUint16 view 4 = Inr n
           \<and> (edgeColumns header = None \<longleftrightarrow> n = 0)
           \<and> (\<forall>cols. edgeColumns header = Some cols \<longrightarrow> length cols = n)"
  using assms
  by (auto simp: parseGraphHeader_def split: sum.splits if_splits dest: parse_columns_length)

subsection \<open>Edge records without columns\<close>

lemma parseEdge_no_columns:
  assumes "byteOffset bytes + offset + 8 \<le> length (buffer bytes)"
  shows "parseEdge h bytes offset size' None =
           Inr \<lparr>from_index = le_nat (take 4 (drop (byteOffset bytes + offset) (buffer bytes))),
                to_index = le_nat (take 4 (drop (byteOffset bytes + offset + 4) (buffer bytes))),
                properties = []\<rparr>"
  using assms by (simp add: parseEdge_def new_DataView_def getUint32_def getUint_def)

text \<open>
  C10. When the graph header that was decoded declares zero columns, every edge record
  whose eight bytes of \<open>from\<close> and \<open>to\<close> lie in the buffer decodes, whatever its declared
  size, to an edge with these two indices and an empty property map: the property bytes
  of a record larger than 8 are ignored and nothing is raised.
\<close>

theorem zero_columns_edge_has_empty_properties:
  assumes "parseGraphHeader h bytes headerOffset headerSize = Inr header"
    and "getUint16 \<lparr>dv_buffer = buffer bytes, dv_offset = byteOffset bytes + headerOffset\<rparr> 4 = Inr 0"
    and "byteOffset bytes + offset + 8 \<le> length (buffer bytes)"
  shows "parseEdge h bytes offset size' (edgeColumns header) =
           Inr \<lparr>from_index = le_nat (take 4 (drop (byteOffset bytes + offset) (buffer bytes))),
                to_index = le_nat (take 4 (drop (byteOffset bytes + offset + 4) (buffer bytes))),
                properties = []\<rparr>"
proof -
  from parseGraphHeader_columns [OF assms(1)] assms(2)
  have "edgeColumns header = None"
    by (auto simp: new_DataView_def split: if_splits)
  with parseEdge_no_columns [OF assms(3)] show ?thesis by simp
qed

theorem zero_columns_edge_has_empty_properties_witness:
  "parseGraphHeader ascii_host (new_Uint8Array zero_column_section) 4 6
     = Inr \<lparr>edgeCount = 1, edgeColumns = None\<rparr>
   \<and> parseEdge ascii_host (new_Uint8Array zero_column_section) 14 11 None
     = Inr \<lparr>from_index = 2, to_index = 7, properties = []\<rparr>"
proof -
  have a: "parseGraphHeader ascii_host (new_Uint8Array zero_column_section) 4 6
             = Inr \<lparr>edgeCount = 1, edgeColumns = None\<rparr>"
    by (simp add: parseGraphHeader_def new_Uint8Array_def zero_column_section_def
          new_DataView_def getUint32_def getUint16_def getUint_def)
  have b: "getUint16 \<lparr>dv_buffer = buffer (new_Uint8Array zero_column_section),
                      dv_offset = byteOffset (new_Uint8Array zero_column_section) + 4\<rparr> 4 = Inr 0"
    by (simp add: new_Uint8Array_def zero_column_section_def getUint16_def getUint_def)
  have c: "byteOffset (new_Uint8Array zero_column_section) + 14 + 8
             \<le> length (buffer (new_Uint8Array zero_column_section))"
    by (simp add: new_Uint8Array_def zero_column_section_def)
  show ?thesis
    using a zero_columns_edge_has_empty_properties [OF a b c, of 11]
    by (simp add: new_Uint8Array_def zero_column_section_def)
qed

subsection \<open>Evaluating the reader on concrete bytes\<close>

lemmas reader_defs =
  parseGraphSection_def parseGraphSectionHeader_def parseGraphHeader_def read_edgeSize_def
  parseEdge_def parseEdgeProperties_def parse_value_def
  new_Uint8Array_def new_DataView_def getUint32_def getUint16_def getUint8_def getUint_def
  getInt_def to_signed_def
  subarray_def elems_def index_def SIZE_PREFIX_LEN_def
  ColumnType_of_nat_def ColumnType_values_def Let_def

lemmas ascii_defs =
  ascii_host_def ascii_parse_def ascii_stringify_def char_of_def bit_Suc_0_iff

subsection \<open>The property decoder\<close>

text \<open>Every key of the decoded map was there at the start or is the name of a declared
  column: a value is only ever stored for an ordinal below the column count.\<close>

lemma parse_properties_loop_keys:
  "parse_properties_loop h bytes view columns offset props = Inr r
    \<Longrightarrow> fst ` set r \<subseteq> fst ` set props \<union> name ` set columns"
proof (induction h bytes view columns offset props rule: parse_properties_loop.induct)
  case (1 h bytes view columns offset props)
  show ?case
  proof (cases "offset < len bytes")
    case False
    with "1.prems" show ?thesis
      by (simp add: parse_properties_loop.simps)
  next
    case True
    show ?thesis
    proof (cases "getUint16 view offset")
      case (Inl e)
      with True "1.prems" show ?thesis
        by (simp add: parse_properties_loop.simps)
    next
      case (Inr colIndex)
      show ?thesis
      proof (cases "length columns \<le> colIndex")
        case True
        with \<open>offset < len bytes\<close> Inr "1.prems" show ?thesis
          by (simp add: parse_properties_loop.simps)
      next
        case False
        then have inrange: "colIndex < length columns" by simp
        show ?thesis
        proof (cases "parse_value h bytes view (columns ! colIndex) (offset + 2)")
          case (Inl e)
          with \<open>offset < len bytes\<close> \<open>getUint16 view offset = Inr colIndex\<close> False "1.prems"
          show ?thesis
            by (simp add: parse_properties_loop.simps)
        next
          case step: (Inr x)
          obtain v offset' where x: "x = (v, offset')" by (cases x)
          from \<open>offset < len bytes\<close> \<open>getUint16 view offset = Inr colIndex\<close> False step x "1.prems"
          have run: "parse_properties_loop h bytes view columns offset'
                       (AList.update (name (columns ! colIndex)) v props) = Inr r"
            by (simp add: parse_properties_loop.simps)
          from "1.IH" [OF \<open>offset < len bytes\<close> \<open>getUint16 view offset = Inr colIndex\<close>
                          False step x [symmetric] run]
          have "fst ` set r \<subseteq>
                  fst ` set (AList.update (name (columns ! colIndex)) v props) \<union> name ` set columns" .
          moreover have "name (columns ! colIndex) \<in> name ` set columns"
            using inrange by simp
          ultimately show ?thesis
            by (auto simp: dom_update)
        qed
      qed
    qed
  qed
qed



subsection \<open>The declared size of an edge record\<close>





lemma overrun_section_header:
  "parseGraphHeader ascii_host (new_Uint8Array overrun_section) 4 10
   = Inr \<lparr>edgeCount = 1, edgeColumns = Some [\<lparr>name = ''a'', type = TBool\<rparr>]\<rparr>"
  by (simp add: reader_defs ascii_defs overrun_section_def)




subsection \<open>Schema inference\<close>









subsection \<open>Evaluating the writer on concrete values\<close>

lemma le_bytes_2: "le_bytes 2 v = [of_nat (v mod 256), of_nat (v div 256 mod 256)]"
proof -
  have "(2::nat) = Suc (Suc 0)" by simp
  then show ?thesis by (simp only: le_bytes.simps)
qed

lemma le_bytes_4:
  "le_bytes 4 v = [of_nat (v mod 256), of_nat (v div 256 mod 256),
                   of_nat (v div 256 div 256 mod 256), of_nat (v div 256 div 256 div 256 mod 256)]"
proof -
  have "(4::nat) = Suc (Suc (Suc (Suc 0)))" by simp
  then show ?thesis by (simp only: le_bytes.simps)
qed

lemma le_bytes_8:
  "le_bytes 8 v = [of_nat (v mod 256), of_nat (v div 256 mod 256),
                   of_nat (v div 256 div 256 mod 256), of_nat (v div 256 div 256 div 256 mod 256),
                   of_nat (v div 256 div 256 div 256 div 256 mod 256),
                   of_nat (v div 256 div 256 div 256 div 256 div 256 mod 256),
                   of_nat (v div 256 div 256 div 256 div 256 div 256 div 256 mod 256),
                   of_nat (v div 256 div 256 div 256 div 256 div 256 div 256 div 256 mod 256)]"
proof -
  have "(8::nat) = Suc (Suc (Suc (Suc (Suc (Suc (Suc (Suc 0)))))))" by simp
  then show ?thesis by (simp only: le_bytes.simps)
qed

lemmas writer_defs =
  setUint16_def setUint32_def setInt_def le_bytes_2 le_bytes_4 le_bytes_8

subsection \<open>Validation of edges by the writer\<close>















subsection \<open>The offset locator\<close>

lemma length_magicbytes: "length magicbytes = 8"
  by (simp add: magicbytes_def)

lemma take_4_drop:
  assumes "off + 4 \<le> length bs"
  shows "take 4 (drop off bs) = [bs ! off, bs ! (off + 1), bs ! (off + 2), bs ! (off + 3)]"
proof -
  have step: "drop i bs = bs ! i # drop (Suc i) bs" if "i < length bs" for i
    using that by (simp add: Cons_nth_drop_Suc)
  have "drop off bs = bs ! off # bs ! Suc off # bs ! Suc (Suc off) # bs ! Suc (Suc (Suc off))
          # drop (Suc (Suc (Suc (Suc off)))) bs"
    using assms step [of off] step [of "Suc off"] step [of "Suc (Suc off)"]
      step [of "Suc (Suc (Suc off))"]
    by simp
  then show ?thesis
    by (simp add: eval_nat_numeral)
qed

lemma readUint32_new:
  assumes "off + 4 \<le> length bs"
  shows "readUint32 (new_Uint8Array bs) off = le_nat (take 4 (drop off bs))"
  using assms
  by (simp add: take_4_drop readUint32_def byte_or_zero_def index_def new_Uint8Array_def)

lemma readUint32_frame:
  assumes "n < 2 ^ 32"
  shows "readUint32 (new_Uint8Array (pre @ setUint32 n @ post)) (length pre) = n"
proof -
  have "readUint32 (new_Uint8Array (pre @ setUint32 n @ post)) (length pre)
          = le_nat (take 4 (drop (length pre) (pre @ setUint32 n @ post)))"
    by (rule readUint32_new) (simp add: setUint32_def)
  also have "\<dots> = le_nat (setUint32 n)"
    by (simp add: setUint32_def)
  also have "\<dots> = n"
    using assms by (simp add: setUint32_def le_nat_le_bytes)
  finally show ?thesis .
qed

lemma skip_features_frames:
  assumes "\<forall>body\<in>set bodies. length body < 2 ^ 32"
  shows "skip_features (new_Uint8Array (pre @ concat (map frame bodies) @ post))
           (length bodies) (length pre)
         = length pre + length (concat (map frame bodies))"
  using assms
proof (induction bodies arbitrary: pre)
  case Nil
  then show ?case by simp
next
  case (Cons body bodies)
  let ?buf = "pre @ concat (map frame (body # bodies)) @ post"
  have small: "length body < 2 ^ 32" using Cons.prems by simp
  have inside: "length pre < len (new_Uint8Array ?buf)"
    by (simp add: new_Uint8Array_def frame_def setUint32_def)
  have "?buf = pre @ setUint32 (length body) @ (body @ concat (map frame bodies) @ post)"
    by (simp add: frame_def)
  then have rd: "readUint32 (new_Uint8Array ?buf) (length pre) = length body"
    using readUint32_frame [OF small, of pre "body @ concat (map frame bodies) @ post"] by simp
  have split: "?buf = (pre @ frame body) @ concat (map frame bodies) @ post"
    by simp
  have "skip_features (new_Uint8Array ?buf) (length (body # bodies)) (length pre)
          = skip_features (new_Uint8Array ?buf) (length bodies) (length (pre @ frame body))"
    using inside rd by (simp add: SIZE_PREFIX_LEN_def frame_def setUint32_def)
  also have "\<dots> = length (pre @ frame body) + length (concat (map frame bodies))"
    unfolding split using Cons.IH [of "pre @ frame body"] Cons.prems by simp
  finally show ?case by simp
qed

lemma locate_plain:
  assumes "length magic = 8" and "length hdr < 2 ^ 32"
    and "\<forall>body\<in>set bodies. length body < 2 ^ 32"
    and "featuresCount headerMeta = length bodies" and "indexNodeSize headerMeta = 0"
  shows "calculateFeaturesEndOffset codec
           (new_Uint8Array (magic @ frame hdr @ concat (map frame bodies) @ post)) headerMeta
         = Inr (length (magic @ frame hdr @ concat (map frame bodies)))"
proof -
  let ?buf = "magic @ frame hdr @ concat (map frame bodies) @ post"
  have "?buf = magic @ setUint32 (length hdr) @ (hdr @ concat (map frame bodies) @ post)"
    by (simp add: frame_def)
  then have hl: "readUint32 (new_Uint8Array ?buf) (length magicbytes) = length hdr"
    using readUint32_frame [OF assms(2), of magic "hdr @ concat (map frame bodies) @ post"] assms(1)
    by (simp add: length_magicbytes)
  have "?buf = (magic @ frame hdr) @ concat (map frame bodies) @ post" by simp
  then have "skip_features (new_Uint8Array ?buf) (length bodies) (length (magic @ frame hdr))
          = length (magic @ frame hdr) + length (concat (map frame bodies))"
    using skip_features_frames [OF assms(3), of "magic @ frame hdr" post] by simp
  moreover have "length magicbytes + SIZE_PREFIX_LEN + length hdr = length (magic @ frame hdr)"
    using assms(1) by (simp add: length_magicbytes SIZE_PREFIX_LEN_def frame_def setUint32_def)
  ultimately show ?thesis
    using hl assms(4,5) by (simp add: calculateFeaturesEndOffset_def Let_def)
qed

lemma readUint32_cong:
  assumes "\<forall>i\<ge>8. index b1 i = index b2 i" and "8 \<le> off"
  shows "readUint32 b1 off = readUint32 b2 off"
  using assms by (simp add: readUint32_def byte_or_zero_def)

lemma skip_features_cong:
  assumes "len b1 = len b2" and "\<forall>i\<ge>8. index b1 i = index b2 i" and "8 \<le> off"
  shows "skip_features b1 n off = skip_features b2 n off"
  using assms(3)
proof (induction n arbitrary: off)
  case 0
  then show ?case by simp
next
  case (Suc n)
  have "readUint32 b1 off = readUint32 b2 off"
    using readUint32_cong [OF assms(2) Suc.prems] .
  moreover have "8 \<le> off + (SIZE_PREFIX_LEN + readUint32 b2 off)"
    using Suc.prems by simp
  ultimately show ?case
    using Suc.IH [of "off + (SIZE_PREFIX_LEN + readUint32 b2 off)"] assms(1) by simp
qed

lemma calculateFeaturesEndOffset_cong:
  assumes "len b1 = len b2" and "\<forall>i\<ge>8. index b1 i = index b2 i"
  shows "calculateFeaturesEndOffset codec b1 headerMeta = calculateFeaturesEndOffset codec b2 headerMeta"
proof -
  have hl: "readUint32 b1 (length magicbytes) = readUint32 b2 (length magicbytes)"
    using readUint32_cong [OF assms(2), of 8] by (simp add: length_magicbytes)
  have sk: "skip_features b1 n off = skip_features b2 n off" if "8 \<le> off" for n off
    using skip_features_cong [OF assms that] .
  show ?thesis
    unfolding calculateFeaturesEndOffset_def Let_def hl
    by (auto simp: length_magicbytes sk split: sum.splits)
qed

lemma isValidMagicBytes_iff:
  "isValidMagicBytes bytes \<longleftrightarrow>
     index bytes 0 = Some 0x66 \<and> index bytes 1 = Some 0x67
     \<and> (index bytes 2 = Some 0x67 \<or> index bytes 2 = Some 0x62)"
  by (auto simp: isValidMagicBytes_def Let_def)

lemmas locator_defs =
  calculateFeaturesEndOffset_def magicbytes_def fgbMagicBytes_def SIZE_PREFIX_LEN_def
  readUint32_def byte_or_zero_def index_def new_Uint8Array_def plain_codec_def

text \<open>
  C6, as stated, fails: for a file with the FlatGeobuf magic and bytes after its last
  feature the locator returns the offset 22 of these bytes, not the file length 32; and
  for a file whose first eight bytes are no magic at all the locator returns an offset
  and the streaming reader ends normally: nothing is raised.
\<close>

theorem magic_not_verified_counterexample:
  "take 8 fgb_file_with_trailer = fgbMagicBytes
   \<and> len (new_Uint8Array fgb_file_with_trailer) = 32
   \<and> calculateFeaturesEndOffset plain_codec (new_Uint8Array fgb_file_with_trailer)
        \<lparr>featuresCount = 1, indexNodeSize = 0\<rparr> = Inr 22
   \<and> \<not> isValidMagicBytes (new_Uint8Array bad_magic_file)
   \<and> calculateFeaturesEndOffset plain_codec (new_Uint8Array bad_magic_file)
        \<lparr>featuresCount = 1, indexNodeSize = 0\<rparr> = Inr 22
   \<and> deserializeGraphEdges ascii_host plain_codec (new_Uint8Array bad_magic_file) = ([], None)"
proof (intro conjI)
  show "take 8 fgb_file_with_trailer = fgbMagicBytes"
    by (simp add: fgb_file_with_trailer_def fgbMagicBytes_def)
  show "len (new_Uint8Array fgb_file_with_trailer) = 32"
    by (simp add: fgb_file_with_trailer_def fgbMagicBytes_def new_Uint8Array_def)
  show "calculateFeaturesEndOffset plain_codec (new_Uint8Array fgb_file_with_trailer)
          \<lparr>featuresCount = 1, indexNodeSize = 0\<rparr> = Inr 22"
    by (simp add: locator_defs fgb_file_with_trailer_def)
  show "\<not> isValidMagicBytes (new_Uint8Array bad_magic_file)"
    by (simp add: isValidMagicBytes_def bad_magic_file_def index_def new_Uint8Array_def)
  show "calculateFeaturesEndOffset plain_codec (new_Uint8Array bad_magic_file)
          \<lparr>featuresCount = 1, indexNodeSize = 0\<rparr> = Inr 22"
    by (simp add: locator_defs bad_magic_file_def)
  show "deserializeGraphEdges ascii_host plain_codec (new_Uint8Array bad_magic_file) = ([], None)"
    by (simp add: deserializeGraphEdges_def locator_defs bad_magic_file_def)
qed

text \<open>
  C6, amended. The offset locator does not look at the first eight bytes: two arrays of
  the same length that agree from offset 8 on get the same result, so no \<open>BadMagic\<close> is
  raised and the FlatGeobuf magic gets no treatment of its own. The magic test
  \<^verbatim>\<open>isValidMagicBytes\<close>, which the locator does not call, accepts exactly the arrays
  that start with \<^verbatim>\<open>66 67 67\<close> or \<^verbatim>\<open>66 67 62\<close>. For a file, under either magic, that
  is its eight magic bytes, its size-prefixed header and \<open>featuresCount\<close> size-prefixed
  features, without index, the locator returns the whole file length: there is no
  graph section.
\<close>

theorem locator_does_not_read_magic:
  "(len b1 = len b2 \<and> (\<forall>i\<ge>8. index b1 i = index b2 i) \<longrightarrow>
      calculateFeaturesEndOffset codec b1 headerMeta = calculateFeaturesEndOffset codec b2 headerMeta)
   \<and> (isValidMagicBytes bytes \<longleftrightarrow>
        index bytes 0 = Some 0x66 \<and> index bytes 1 = Some 0x67
        \<and> (index bytes 2 = Some 0x67 \<or> index bytes 2 = Some 0x62))
   \<and> (length magic = 8 \<and> length hdr < 2 ^ 32 \<and> (\<forall>body\<in>set bodies. length body < 2 ^ 32)
       \<and> featuresCount headerMeta = length bodies \<and> indexNodeSize headerMeta = 0 \<longrightarrow>
      calculateFeaturesEndOffset codec
        (new_Uint8Array (magic @ frame hdr @ concat (map frame bodies))) headerMeta
      = Inr (len (new_Uint8Array (magic @ frame hdr @ concat (map frame bodies)))))"
proof (intro conjI impI)
  assume "len b1 = len b2 \<and> (\<forall>i\<ge>8. index b1 i = index b2 i)"
  then show "calculateFeaturesEndOffset codec b1 headerMeta
               = calculateFeaturesEndOffset codec b2 headerMeta"
    using calculateFeaturesEndOffset_cong [of b1 b2 codec headerMeta] by blast
next
  show "isValidMagicBytes bytes \<longleftrightarrow>
        index bytes 0 = Some 0x66 \<and> index bytes 1 = Some 0x67
        \<and> (index bytes 2 = Some 0x67 \<or> index bytes 2 = Some 0x62)"
    by (rule isValidMagicBytes_iff)
next
  assume a: "length magic = 8 \<and> length hdr < 2 ^ 32 \<and> (\<forall>body\<in>set bodies. length body < 2 ^ 32)
       \<and> featuresCount headerMeta = length bodies \<and> indexNodeSize headerMeta = 0"
  then show "calculateFeaturesEndOffset codec
        (new_Uint8Array (magic @ frame hdr @ concat (map frame bodies))) headerMeta
      = Inr (len (new_Uint8Array (magic @ frame hdr @ concat (map frame bodies))))"
    using locate_plain [of magic hdr bodies headerMeta codec "[]"]
    by (simp add: new_Uint8Array_def)
qed

theorem locator_does_not_read_magic_witness:
  "calculateFeaturesEndOffset plain_codec (new_Uint8Array fgb_file_with_trailer)
       \<lparr>featuresCount = 1, indexNodeSize = 0\<rparr>
     = calculateFeaturesEndOffset plain_codec
         (new_Uint8Array (magicbytes @ drop 8 fgb_file_with_trailer))
         \<lparr>featuresCount = 1, indexNodeSize = 0\<rparr>
   \<and> isValidMagicBytes (new_Uint8Array fgb_file_with_trailer)
   \<and> calculateFeaturesEndOffset plain_codec
        (new_Uint8Array (fgbMagicBytes @ frame [1, 0, 0, 0] @ concat (map frame [[0xAA, 0xBB]])))
        \<lparr>featuresCount = 1, indexNodeSize = 0\<rparr>
     = Inr 22"
proof (intro conjI)
  show "calculateFeaturesEndOffset plain_codec (new_Uint8Array fgb_file_with_trailer)
          \<lparr>featuresCount = 1, indexNodeSize = 0\<rparr>
        = calculateFeaturesEndOffset plain_codec
            (new_Uint8Array (magicbytes @ drop 8 fgb_file_with_trailer))
            \<lparr>featuresCount = 1, indexNodeSize = 0\<rparr>"
    using locator_does_not_read_magic
            [where ?b1.0 = "new_Uint8Array fgb_file_with_trailer"
               and ?b2.0 = "new_Uint8Array (magicbytes @ drop 8 fgb_file_with_trailer)"
               and codec = plain_codec
               and headerMeta = "\<lparr>featuresCount = 1, indexNodeSize = 0\<rparr>",
             THEN conjunct1]
    by (simp add: new_Uint8Array_def index_def fgb_file_with_trailer_def fgbMagicBytes_def
          magicbytes_def nth_Cons')
next
  show "isValidMagicBytes (new_Uint8Array fgb_file_with_trailer)"
    using locator_does_not_read_magic
            [where bytes = "new_Uint8Array fgb_file_with_trailer", THEN conjunct2, THEN conjunct1]
    by (simp add: new_Uint8Array_def index_def fgb_file_with_trailer_def fgbMagicBytes_def)
next
  show "calculateFeaturesEndOffset plain_codec
          (new_Uint8Array (fgbMagicBytes @ frame [1, 0, 0, 0] @ concat (map frame [[0xAA, 0xBB]])))
          \<lparr>featuresCount = 1, indexNodeSize = 0\<rparr>
        = Inr 22"
    using locator_does_not_read_magic
            [where magic = fgbMagicBytes and hdr = "[1, 0, 0, 0]" and bodies = "[[0xAA, 0xBB]]"
               and headerMeta = "\<lparr>featuresCount = 1, indexNodeSize = 0\<rparr>"
               and codec = plain_codec,
             THEN conjunct2, THEN conjunct2]
    by (simp add: fgbMagicBytes_def new_Uint8Array_def frame_def setUint32_def)
qed

subsection \<open>The streaming reader and the batch reader\<close>

text \<open>The batch loop returns the edges the generator yields when the generator returns,
  and throws what the generator throws.\<close>

lemma parse_edges_stream_edges:
  "parse_edges h bytes columns n offset =
     (case stream_edges h bytes columns n offset of
        (es, None) \<Rightarrow> Inr es
      | (es, Some e) \<Rightarrow> Inl e)"
proof (induction n arbitrary: offset)
  case 0
  then show ?case by simp
next
  case (Suc n)
  show ?case
    by (simp add: Suc.IH split: sum.splits prod.splits option.splits)
qed

lemma parseGraphSection_deserializeGraphStream:
  "parseGraphSection h bytes offset =
     (case deserializeGraphStream h bytes offset of
        (es, None) \<Rightarrow> Inr es
      | (es, Some e) \<Rightarrow> Inl e)"
  by (simp add: parseGraphSection_def deserializeGraphStream_def parse_edges_stream_edges
        split: sum.splits)

lemma deserialize_edges:
  assumes "deserialize h codec bytes metaFn = (trace, Inr result)"
  shows "\<exists>headerMeta featuresEndOffset.
           fromByteBuffer codec bytes (length magicbytes) = Inr headerMeta
         \<and> calculateFeaturesEndOffset codec bytes headerMeta = Inr featuresEndOffset
         \<and> (if featuresEndOffset < len bytes
             then parseGraphSection h bytes featuresEndOffset = Inr (adjacencyList result)
             else adjacencyList result = [])"
proof (cases "fromByteBuffer codec bytes (length magicbytes)")
  case (Inl e)
  with assms show ?thesis by (simp add: deserialize_def)
next
  case hm: (Inr headerMeta)
  show ?thesis
  proof (cases "calculateFeaturesEndOffset codec bytes headerMeta")
    case (Inl e)
    with assms hm show ?thesis by (simp add: deserialize_def)
  next
    case off: (Inr featuresEndOffset)
    show ?thesis
    proof (cases "featuresEndOffset < len bytes")
      case True
      from assms hm off True
      have "parseGraphSection h bytes featuresEndOffset = Inr (adjacencyList result)"
        unfolding deserialize_def Let_def
        by (simp split: sum.splits option.splits) fastforce+
      with hm off True show ?thesis by simp
    next
      case False
      from assms hm off False
      have "adjacencyList result = []"
        unfolding deserialize_def Let_def
        by (simp split: sum.splits option.splits) fastforce+
      with hm off False show ?thesis by simp
    qed
  qed
qed

text \<open>
  C5. For every input, the batch parser of the graph section returns exactly the edges
  that the streaming reader yields when that reader returns, and throws the error it
  throws otherwise. Hence, whenever \<^verbatim>\<open>deserialize\<close> returns, the streaming reader
  \<^verbatim>\<open>deserializeGraphEdges\<close> yields the list \<^verbatim>\<open>adjacencyList.edges\<close> of its result, element
  for element, and then returns; when the file has no graph section the streaming
  reader yields nothing and the list of every result of \<^verbatim>\<open>deserialize\<close> is empty.
\<close>

theorem streaming_reader_yields_batch_edges:
  "parseGraphSection h bytes offset =
     (case deserializeGraphStream h bytes offset of
        (es, None) \<Rightarrow> Inr es
      | (es, Some e) \<Rightarrow> Inl e)
   \<and> (deserialize h codec bytes metaFn = (trace, Inr result) \<longrightarrow>
        deserializeGraphEdges h codec bytes = (adjacencyList result, None))
   \<and> (fromByteBuffer codec bytes (length magicbytes) = Inr headerMeta
       \<and> calculateFeaturesEndOffset codec bytes headerMeta = Inr featuresEndOffset
       \<and> len bytes \<le> featuresEndOffset \<longrightarrow>
        deserializeGraphEdges h codec bytes = ([], None)
        \<and> (deserialize h codec bytes metaFn = (trace, Inr result) \<longrightarrow> adjacencyList result = []))"
proof (intro conjI impI)
  show "parseGraphSection h bytes offset =
     (case deserializeGraphStream h bytes offset of
        (es, None) \<Rightarrow> Inr es
      | (es, Some e) \<Rightarrow> Inl e)"
    by (rule parseGraphSection_deserializeGraphStream)
next
  assume "deserialize h codec bytes metaFn = (trace, Inr result)"
  from deserialize_edges [OF this] obtain hm off where
    hm: "fromByteBuffer codec bytes (length magicbytes) = Inr hm"
    and off: "calculateFeaturesEndOffset codec bytes hm = Inr off"
    and edges: "if off < len bytes
                then parseGraphSection h bytes off = Inr (adjacencyList result)
                else adjacencyList result = []"
    by blast
  show "deserializeGraphEdges h codec bytes = (adjacencyList result, None)"
  proof (cases "off < len bytes")
    case True
    with edges have "parseGraphSection h bytes off = Inr (adjacencyList result)" by simp
    then have "deserializeGraphStream h bytes off = (adjacencyList result, None)"
      by (simp add: parseGraphSection_deserializeGraphStream split: prod.splits option.splits)
    with True hm off show ?thesis
      by (simp add: deserializeGraphEdges_def)
  next
    case False
    with edges hm off show ?thesis
      by (simp add: deserializeGraphEdges_def)
  qed
next
  assume a: "fromByteBuffer codec bytes (length magicbytes) = Inr headerMeta
       \<and> calculateFeaturesEndOffset codec bytes headerMeta = Inr featuresEndOffset
       \<and> len bytes \<le> featuresEndOffset"
  then show "deserializeGraphEdges h codec bytes = ([], None)"
    by (simp add: deserializeGraphEdges_def)
  assume "deserialize h codec bytes metaFn = (trace, Inr result)"
  from deserialize_edges [OF this] a show "adjacencyList result = []"
    by auto
qed

lemma small_graph_file_bytes:
  "small_graph_file =
     [0x66, 0x67, 0x67, 0x01, 0x66, 0x67, 0x67, 0x00,   4, 0, 0, 0,   1, 0, 0, 0,
      2, 0, 0, 0,   0xAA, 0xBB,
      0x06, 0, 0, 0,   0x01, 0, 0, 0,   0, 0,
      0x0B, 0, 0, 0,   0x02, 0, 0, 0,   0x07, 0, 0, 0,   0xAA, 0xBB, 0xCC]"
  by (simp add: small_graph_file_def magicbytes_def frame_def zero_column_section_def writer_defs)

lemma small_plain_file_bytes:
  "small_plain_file =
     [0x66, 0x67, 0x67, 0x01, 0x66, 0x67, 0x67, 0x00,   4, 0, 0, 0,   1, 0, 0, 0,
      2, 0, 0, 0,   0xAA, 0xBB]"
  by (simp add: small_plain_file_def magicbytes_def frame_def writer_defs)

lemma deserialize_small_graph_file:
  "deserialize ascii_host plain_codec (new_Uint8Array small_graph_file) None =
     ([FeatureHeaderParsed, GraphHeaderParsed, FeaturesStarted, EdgesStarted],
      Inr \<lparr>features = [[0xAA, 0xBB]],
           adjacencyList = [\<lparr>from_index = 2, to_index = 7, properties = []\<rparr>]\<rparr>)"
  by (simp add: deserialize_def small_graph_file_bytes locator_defs reader_defs)

lemma deserialize_small_plain_file:
  "deserialize ascii_host plain_codec (new_Uint8Array small_plain_file) None =
     ([FeatureHeaderParsed, FeaturesStarted],
      Inr \<lparr>features = [[0xAA, 0xBB]], adjacencyList = []\<rparr>)"
  by (simp add: deserialize_def small_plain_file_bytes locator_defs reader_defs)

theorem streaming_reader_yields_batch_edges_witness:
  "deserializeGraphEdges ascii_host plain_codec (new_Uint8Array small_graph_file)
     = ([\<lparr>from_index = 2, to_index = 7, properties = []\<rparr>], None)
   \<and> deserializeGraphEdges ascii_host plain_codec (new_Uint8Array small_plain_file) = ([], None)"
proof
  show "deserializeGraphEdges ascii_host plain_codec (new_Uint8Array small_graph_file)
          = ([\<lparr>from_index = 2, to_index = 7, properties = []\<rparr>], None)"
    using streaming_reader_yields_batch_edges
            [where h = ascii_host and codec = plain_codec
               and bytes = "new_Uint8Array small_graph_file" and metaFn = None
               and trace = "[FeatureHeaderParsed, GraphHeaderParsed, FeaturesStarted, EdgesStarted]"
               and result = "\<lparr>features = [[0xAA, 0xBB]],
                     adjacencyList = [\<lparr>from_index = 2, to_index = 7, properties = []\<rparr>]\<rparr>",
             THEN conjunct2, THEN conjunct1]
      deserialize_small_graph_file
    by simp
next
  have "fromByteBuffer plain_codec (new_Uint8Array small_plain_file) (length magicbytes)
          = Inr \<lparr>featuresCount = 1, indexNodeSize = 0\<rparr>
        \<and> calculateFeaturesEndOffset plain_codec (new_Uint8Array small_plain_file)
            \<lparr>featuresCount = 1, indexNodeSize = 0\<rparr> = Inr 22
        \<and> len (new_Uint8Array small_plain_file) \<le> 22"
    by (simp add: small_plain_file_bytes locator_defs)
  then show "deserializeGraphEdges ascii_host plain_codec (new_Uint8Array small_plain_file) = ([], None)"
    using streaming_reader_yields_batch_edges
            [where h = ascii_host and codec = plain_codec
               and bytes = "new_Uint8Array small_plain_file"
               and headerMeta = "\<lparr>featuresCount = 1, indexNodeSize = 0\<rparr>"
               and featuresEndOffset = 22,
             THEN conjunct2, THEN conjunct2]
    by blast
qed

subsection \<open>The metadata observer\<close>




subsection \<open>Reading what was written at an offset\<close>



lemma holds_at_bound: "holds_at B off X \<Longrightarrow> off + length X \<le> length B"
  by (simp add: holds_at_def)



subsection \<open>Properties: decoding what the writer encoded\<close>





subsection \<open>Edge records: decoding what the writer encoded\<close>






subsection \<open>The graph section: decoding what the writer encoded\<close>










subsection \<open>The round trip through \<^verbatim>\<open>serialize\<close> and \<^verbatim>\<open>deserialize\<close>\<close>


lemma stored_properties_map_of:
  assumes "distinct (map name cols)"
  shows "map_of (stored_properties (Some cols) (Some ps)) k =
           (if k \<in> name ` set cols \<and> get_property ps k \<noteq> VNull \<and> get_property ps k \<noteq> VUndefined
            then Some (get_property ps k) else None)"
  using assms
  by (induction cols)
     (auto simp: stored_properties_def present_properties_def Let_def image_iff)
















end
